theory Spec2Isabelle
  imports Complex_Main
begin

section \<open>Python values, dictionaries and exceptions\<close>

text \<open>
  The sources are dynamically typed Python. Values that the code stores, compares or passes
  through without looking inside (property values, payloads, token counts, distances) are
  elements of \<open>pyval\<close>. A \<open>dict\<close> is an association list in insertion order; a lookup
  takes the first entry of a key. Floats are only ever carried from one place to another
  by the code below, never computed with, so \<open>PyFloat\<close> holds a real number.
\<close>

datatype pyval =
    PyNone
  | PyBool bool
  | PyInt int
  | PyFloat real
  | PyStr string
  | PyList "pyval list"
  | PyDict "(string \<times> pyval) list"

type_synonym dict = "(string \<times> pyval) list"

text \<open>Exceptions are values; each constructor carries what the raise site puts in it.\<close>

datatype error =
    TypeError string
  | KeyError string
  | IndexError
  | RuntimeError string
  | UnexpectedStatusCodeError string
  | ExternalError string

text \<open>\<open>d[k]\<close> on a dict raises KeyError when the key is absent; \<open>d.get(k, default)\<close> does not.\<close>

definition dict_getitem :: "dict \<Rightarrow> string \<Rightarrow> error + pyval" where
  "dict_getitem d k = (case map_of d k of None \<Rightarrow> Inl (KeyError k) | Some v \<Rightarrow> Inr v)"

definition dict_get :: "dict \<Rightarrow> string \<Rightarrow> pyval \<Rightarrow> pyval" where
  "dict_get d k dflt = (case map_of d k of None \<Rightarrow> dflt | Some v \<Rightarrow> v)"

text \<open>\<open>d[k] = v\<close>: an existing key keeps its position, a new key goes last.\<close>

fun dict_setitem :: "dict \<Rightarrow> string \<Rightarrow> pyval \<Rightarrow> dict" where
  "dict_setitem [] k v = [(k, v)]"
| "dict_setitem ((k', v') # d) k v =
     (if k' = k then (k, v) # d else (k', v') # dict_setitem d k v)"

text \<open>
  The subscript operator \<open>x[i]\<close> on the values above: a dict with a string key, a list or
  a string with an integer index (negative indices count from the end). Anything else is
  a TypeError.
\<close>

definition py_getitem :: "pyval \<Rightarrow> pyval \<Rightarrow> error + pyval" where
  "py_getitem x i =
     (case (x, i) of
        (PyDict d, PyStr k) \<Rightarrow> dict_getitem d k
      | (PyList xs, PyInt n) \<Rightarrow>
          (let len = int (length xs); j = (if n < 0 then len + n else n)
           in if 0 \<le> j \<and> j < len then Inr (xs ! nat j) else Inl IndexError)
      | (PyStr s, PyInt n) \<Rightarrow>
          (let len = int (length s); j = (if n < 0 then len + n else n)
           in if 0 \<le> j \<and> j < len then Inr (PyStr [s ! nat j]) else Inl IndexError)
      | _ \<Rightarrow> Inl (TypeError ''object is not subscriptable with this index''))"

text \<open>Truthiness, and \<open>x or y\<close>, which yields \<open>x\<close> itself when it is truthy.\<close>

fun truthy :: "pyval \<Rightarrow> bool" where
  "truthy PyNone = False"
| "truthy (PyBool b) = b"
| "truthy (PyInt n) = (n \<noteq> 0)"
| "truthy (PyFloat r) = (r \<noteq> 0)"
| "truthy (PyStr s) = (s \<noteq> [])"
| "truthy (PyList xs) = (xs \<noteq> [])"
| "truthy (PyDict d) = (d \<noteq> [])"

definition py_or :: "pyval \<Rightarrow> pyval \<Rightarrow> pyval" where
  "py_or x y = (if truthy x then x else y)"

section \<open>events.py\<close>

subsection \<open>Event and TurnEnd\<close>

text \<open>
  \<open>Event\<close> is a dataclass with the fields agent, type, payload and depth (default 0).
\<close>

record Event =
  agent :: pyval
  type :: string
  payload :: pyval
  depth :: int

text \<open>
  \<open>TurnEnd.__init__(agent, messages, context_variables)\<close> calls
  \<open>Event.__init__(agent, 'turn_end', {"messages": messages, "vars": context_variables})\<close>.
\<close>

definition TurnEnd :: "string \<Rightarrow> pyval list \<Rightarrow> dict \<Rightarrow> Event" where
  "TurnEnd a messages context_variables =
     \<lparr> agent = PyStr a,
       type = ''turn_end'',
       payload = PyDict [(''messages'', PyList messages), (''vars'', PyDict context_variables)],
       depth = 0 \<rparr>"

text \<open>The three properties of \<open>TurnEnd\<close>; each is a chain of subscripts on the payload.\<close>

definition TurnEnd_messages :: "Event \<Rightarrow> error + pyval" where
  "TurnEnd_messages self = py_getitem (payload self) (PyStr ''messages'')"

definition TurnEnd_result :: "Event \<Rightarrow> error + pyval" where
  "TurnEnd_result self =
     (case TurnEnd_messages self of
        Inl e \<Rightarrow> Inl e
      | Inr ms \<Rightarrow>
          (case py_getitem ms (PyInt (- 1)) of
             Inl e \<Rightarrow> Inl e
           | Inr m \<Rightarrow> py_getitem m (PyStr ''content'')))"

definition TurnEnd_context_variables :: "Event \<Rightarrow> error + pyval" where
  "TurnEnd_context_variables self = py_getitem (payload self) (PyStr ''vars'')"

subsection \<open>Sentinel results\<close>

definition PAUSE_FOR_INPUT_SENTINEL :: string where
  "PAUSE_FOR_INPUT_SENTINEL = ''__PAUSE4INPUT__''"

definition PAUSE_FOR_CHILD_SENTINEL :: string where
  "PAUSE_FOR_CHILD_SENTINEL = ''__PAUSE__CHILD''"

definition FINISH_AGENT_SENTINEL :: string where
  "FINISH_AGENT_SENTINEL = ''__FINISH__''"

text \<open>
  Modelled from the spec: the base class \<open>Result\<close> (imported from \<open>.swarm.types\<close>) is not among
  the sources. The spec calls these classes plain data carriers, so \<open>Result\<close> is the record
  of the two keyword arguments its subclasses pass to its constructor, \<open>value\<close> and
  \<open>context_variables\<close>, the latter empty when it is not given.
\<close>

record Result =
  value' :: string
  context_variables :: dict

definition PauseForInputResult :: "dict \<Rightarrow> Result" where
  "PauseForInputResult request_keys =
     \<lparr> value' = PAUSE_FOR_INPUT_SENTINEL, context_variables = request_keys \<rparr>"

definition PauseForInputResult_matches_sentinel :: "pyval \<Rightarrow> bool" where
  "PauseForInputResult_matches_sentinel v = (v = PyStr PAUSE_FOR_INPUT_SENTINEL)"

definition PauseForChildResult :: "dict \<Rightarrow> Result" where
  "PauseForChildResult values =
     \<lparr> value' = PAUSE_FOR_CHILD_SENTINEL, context_variables = values \<rparr>"

definition PauseForChildResult_matches_sentinel :: "pyval \<Rightarrow> bool" where
  "PauseForChildResult_matches_sentinel v = (v = PyStr PAUSE_FOR_CHILD_SENTINEL)"

definition FinishAgentResult :: Result where
  "FinishAgentResult = \<lparr> value' = FINISH_AGENT_SENTINEL, context_variables = [] \<rparr>"

definition FinishAgentResult_matches_sentinel :: "pyval \<Rightarrow> bool" where
  "FinishAgentResult_matches_sentinel v = (v = PyStr FINISH_AGENT_SENTINEL)"

subsection \<open>FinishCompletion\<close>

text \<open>
  \<open>FinishCompletion\<close> extends \<open>Event\<close> with a metadata dict. Its \<open>__init__\<close> calls
  \<open>Event.__init__(agent, 'completion_end', llm_message)\<close> and stores the metadata.
\<close>

record FinishCompletion = Event +
  metadata :: dict

definition MODEL_KEY :: string where
  "MODEL_KEY = ''model''"

definition COST_KEY :: string where
  "COST_KEY = ''cost''"

definition INPUT_TOKENS_KEY :: string where
  "INPUT_TOKENS_KEY = ''input_tokens''"

definition OUTPUT_TOKENS_KEY :: string where
  "OUTPUT_TOKENS_KEY = ''output_tokens''"

definition ELAPSED_TIME_KEY :: string where
  "ELAPSED_TIME_KEY = ''elapsed_time''"

definition FinishCompletion_init :: "pyval \<Rightarrow> pyval \<Rightarrow> dict \<Rightarrow> FinishCompletion" where
  "FinishCompletion_init a llm_message md =
     \<lparr> agent = a, type = ''completion_end'', payload = llm_message, depth = 0, metadata = md \<rparr>"

text \<open>
  A call with keyword arguments binds them to the callee's parameters before the body runs.
  A keyword that names no parameter is a TypeError, and so is a parameter without default
  that receives no argument. \<open>params\<close> are the parameters of a callee that has no defaults
  and no \<open>**kwargs\<close>, which is the case of \<open>FinishCompletion.create\<close>.
\<close>

definition bind_keywords :: "string \<Rightarrow> string list \<Rightarrow> dict \<Rightarrow> error + dict" where
  "bind_keywords fname params kwargs =
     (case filter (\<lambda>k. k \<notin> set params) (map fst kwargs) of
        k # _ \<Rightarrow> Inl (TypeError (fname @ ''() got an unexpected keyword argument '' @ k))
      | [] \<Rightarrow>
          (case filter (\<lambda>p. map_of kwargs p = None) params of
             p # _ \<Rightarrow> Inl (TypeError (fname @ ''() missing required argument '' @ p))
           | [] \<Rightarrow> Inr kwargs))"

definition FinishCompletion_create_params :: "string list" where
  "FinishCompletion_create_params =
     [''agent'', ''llm_message'', ''model'', ''cost'', ''input_tokens'', ''output_tokens'',
      ''elapsed_time'']"

text \<open>The classmethod \<open>FinishCompletion.create\<close>, called with keyword arguments.\<close>

definition FinishCompletion_create :: "dict \<Rightarrow> error + FinishCompletion" where
  "FinishCompletion_create kwargs =
     (case bind_keywords ''FinishCompletion.create'' FinishCompletion_create_params kwargs of
        Inl e \<Rightarrow> Inl e
      | Inr args \<Rightarrow>
          (let meta =
             [(MODEL_KEY, dict_get args ''model'' PyNone),
              (COST_KEY, py_or (dict_get args ''cost'' PyNone) (PyInt 0)),
              (INPUT_TOKENS_KEY, py_or (dict_get args ''input_tokens'' PyNone) (PyInt 0)),
              (OUTPUT_TOKENS_KEY, py_or (dict_get args ''output_tokens'' PyNone) (PyInt 0)),
              (ELAPSED_TIME_KEY, py_or (dict_get args ''elapsed_time'' PyNone) (PyInt 0))]
           in Inr (FinishCompletion_init (dict_get args ''agent'' PyNone)
                     (dict_get args ''llm_message'' PyNone) meta)))"

section \<open>tools/browser\_use.py\<close>

text \<open>Decimal rendering of an integer, as an f-string does it.\<close>

definition digit_char :: "nat \<Rightarrow> char" where
  "digit_char d = ''0123456789'' ! d"

function str_nat :: "nat \<Rightarrow> string" where
  "str_nat n = (if n < 10 then [digit_char n] else str_nat (n div 10) @ [digit_char (n mod 10)])"
  by pat_completeness auto
termination
  by (relation "measure (\<lambda>n. n)") auto

definition str_int :: "int \<Rightarrow> string" where
  "str_int i = (if i < 0 then CHR ''-'' # str_nat (nat (- i)) else str_nat (nat i))"

text \<open>\<open>sep.join(xs)\<close>.\<close>

fun join :: "string \<Rightarrow> string list \<Rightarrow> string" where
  "join sep [] = []"
| "join sep [x] = x"
| "join sep (x # y # ys) = x @ sep @ join sep (y # ys)"

text \<open>
  \<open>TokenCounterStdOutCallback\<close> starts with both totals at 0. \<open>on_llm_end\<close> adds the
  prompt and completion tokens of a response that has a non-empty \<open>llm_output\<close>; the field
  is \<open>None\<close> here when the attribute is missing or holds \<open>None\<close>. The prints are left out.
\<close>

record TokenCounterStdOutCallback =
  total_input_tokens :: int
  total_output_tokens :: int

definition TokenCounterStdOutCallback_init :: TokenCounterStdOutCallback where
  "TokenCounterStdOutCallback_init = \<lparr> total_input_tokens = 0, total_output_tokens = 0 \<rparr>"

record LLMResponse =
  llm_output :: "(string \<times> (string \<times> int) list) list option"

definition on_llm_end :: "TokenCounterStdOutCallback \<Rightarrow> LLMResponse \<Rightarrow> TokenCounterStdOutCallback" where
  "on_llm_end self response =
     (case llm_output response of
        None \<Rightarrow> self
      | Some out \<Rightarrow>
          if out = [] then self
          else
            (let token_usage = (case map_of out ''token_usage'' of None \<Rightarrow> [] | Some tu \<Rightarrow> tu);
                 input_tokens = (case map_of token_usage ''prompt_tokens'' of None \<Rightarrow> 0 | Some n \<Rightarrow> n);
                 output_tokens =
                   (case map_of token_usage ''completion_tokens'' of None \<Rightarrow> 0 | Some n \<Rightarrow> n)
             in self\<lparr> total_input_tokens := total_input_tokens self + input_tokens,
                      total_output_tokens := total_output_tokens self + output_tokens \<rparr>))"

text \<open>
  The browser agent is an external library. Its run is a parameter of the model: given the
  task, the model name and the Chrome path of the browser (if any), it either raises or
  returns the extracted content of its history together with the LLM responses that
  reached the token counter's callback during the run, in order.
\<close>

type_synonym BrowserAgent =
  "string \<Rightarrow> string \<Rightarrow> string option \<Rightarrow> error + (string list \<times> LLMResponse list)"

record BrowserUseTool =
  chrome_instance_path :: "string option"
  model :: string

text \<open>Of the run context the tool reads \<open>run_context.agent.name\<close> only.\<close>

record RunContext =
  agent_name :: string

datatype tool_output = OutStr string | OutFinishCompletion FinishCompletion

definition run_browser_agent ::
  "BrowserAgent \<Rightarrow> BrowserUseTool \<Rightarrow> RunContext \<Rightarrow> string \<Rightarrow> string option
     \<Rightarrow> error + tool_output list" where
  "run_browser_agent agent_run self run_context instructions model_arg =
     (let browser =
        (case chrome_instance_path self of
           None \<Rightarrow> None
         | Some path \<Rightarrow> if path = [] then None else Some path)
      in case agent_run instructions (model self) browser of
           Inl e \<Rightarrow> Inl e
         | Inr (extracted_content, responses) \<Rightarrow>
             (let token_counter = foldl on_llm_end TokenCounterStdOutCallback_init responses;
                  joined = join [CHR 0x0A] extracted_content
              in case FinishCompletion_create
                     [(''agent'', PyStr (agent_name run_context)),
                      (''llm_message'',
                         PyStr (''Tokens used - Input: '' @ str_int (total_input_tokens token_counter)
                                @ '', Output: '' @ str_int (total_output_tokens token_counter))),
                      (''model'', PyStr (model self)),
                      (''cost'', PyInt 0),
                      (''input_tokens'', PyInt (total_input_tokens token_counter)),
                      (''output_tokens'', PyInt (total_output_tokens token_counter)),
                      (''elapsed_time'', PyInt 0),
                      (''depth'', PyInt 0)] of
                   Inl e \<Rightarrow> Inl e
                 | Inr finish \<Rightarrow> Inr [OutStr joined, OutFinishCompletion finish]))"

text \<open>A run used in the examples below: two extracted strings, one LLM call with usage data.\<close>

definition example_agent_run :: BrowserAgent where
  "example_agent_run task model_name browser =
     Inr ([''Example Domain'', ''More information...''],
          [\<lparr> llm_output = Some [(''token_usage'', [(''prompt_tokens'', 120), (''completion_tokens'', 30)])] \<rparr>])"

section \<open>utils/rag\_helper.py\<close>

subsection \<open>The vector-database client\<close>

text \<open>
  The module calls a third-party vector-database client. What the module reads of the
  client's data is modelled as the code reads it: an object has a \<open>properties\<close> dict and a
  \<open>vector\<close> dict from vector names to vectors (the code subscripts it with \<open>"default"\<close>); an
  object returned by a query also has \<open>metadata.distance\<close>. Object identifiers are not
  modelled: the module never reads or passes one.
\<close>

type_synonym vector = "real list"

record WeaviateObject =
  properties :: dict
  vector :: "(string \<times> vector) list"

record QueryObject = WeaviateObject +
  distance :: pyval

text \<open>\<open>Filter.by_property(name).equal(value)\<close>, the only filter the module builds.\<close>

datatype Filter = by_property_equal string pyval

fun filter_matches :: "Filter \<Rightarrow> WeaviateObject \<Rightarrow> bool" where
  "filter_matches (by_property_equal k v) obj = (map_of (properties obj) k = Some v)"

text \<open>The return value of \<open>collection.data.delete_many\<close>; the module reads \<open>successful\<close>.\<close>

record DeleteManyReturn =
  failed :: int
  matches :: int
  successful :: int

text \<open>The keyword arguments \<open>search_collection\<close> passes to \<open>collection.query.near_vector\<close>.\<close>

record SearchParams =
  limit :: int
  return_metadata :: "string list"
  return_properties :: "string list"
  filters :: "Filter option"

text \<open>
  The functions of the module that take a \<open>collection: Any\<close> work with whatever object
  answers the four calls below, so they are parametric in these operations; \<open>'c\<close> is the
  state of the collection behind the handle. Every operation may raise; \<open>delete_many\<close>
  also changes the collection.
\<close>

record 'c CollectionAPI =
  query_fetch_objects :: "'c \<Rightarrow> nat \<Rightarrow> Filter \<Rightarrow> error + WeaviateObject list"
  aggregate_over_all :: "'c \<Rightarrow> Filter \<Rightarrow> error + int"
  data_delete_many :: "'c \<Rightarrow> Filter \<Rightarrow> (error + DeleteManyReturn) \<times> 'c"
  query_near_vector :: "'c \<Rightarrow> vector \<Rightarrow> SearchParams \<Rightarrow> error + QueryObject list"

text \<open>
  A reference collection held in memory: the list of its objects, in the order in which the
  client returns them. Fetching returns the first \<open>limit\<close> objects that match, the
  aggregate counts the matching objects, and \<open>delete_many\<close> removes every matching object
  and reports all of them as successful. Vector search is left to a parameter.
\<close>

definition memory_fetch_objects ::
  "WeaviateObject list \<Rightarrow> nat \<Rightarrow> Filter \<Rightarrow> error + WeaviateObject list" where
  "memory_fetch_objects objs n flt = Inr (take n (filter (filter_matches flt) objs))"

definition memory_over_all :: "WeaviateObject list \<Rightarrow> Filter \<Rightarrow> error + int" where
  "memory_over_all objs flt = Inr (int (length (filter (filter_matches flt) objs)))"

definition memory_delete_many ::
  "WeaviateObject list \<Rightarrow> Filter \<Rightarrow> (error + DeleteManyReturn) \<times> WeaviateObject list" where
  "memory_delete_many objs flt =
     (let n = int (length (filter (filter_matches flt) objs))
      in (Inr \<lparr> failed = 0, matches = n, successful = n \<rparr>,
          filter (\<lambda>obj. \<not> filter_matches flt obj) objs))"

definition memory_collection ::
  "(WeaviateObject list \<Rightarrow> vector \<Rightarrow> SearchParams \<Rightarrow> error + QueryObject list)
     \<Rightarrow> WeaviateObject list CollectionAPI" where
  "memory_collection near_vector =
     \<lparr> query_fetch_objects = memory_fetch_objects,
       aggregate_over_all = memory_over_all,
       data_delete_many = memory_delete_many,
       query_near_vector = near_vector \<rparr>"

text \<open>
  The functions that take a \<open>client: WeaviateClient\<close> create, copy and delete whole
  collections. They run against a reference store: a map from collection names to
  collections, each with the schema it was created with and its objects. A handle obtained
  with \<open>client.collections.get(name)\<close> is the name itself; it is resolved when it is used.
\<close>

datatype VectorDistances = COSINE | DOT | L2_SQUARED | HAMMING | MANHATTAN

datatype DataType = DataType_TEXT | DataType_INT | DataType_DATE

record Property =
  name :: string
  data_type :: DataType
  index_filterable :: "bool option"
  index_range_filter :: "bool option"
  index_searchable :: "bool option"

record Collection =
  schema_properties :: "Property list"
  distance_metric :: VectorDistances
  objects :: "WeaviateObject list"

type_synonym WeaviateClient = "string \<rightharpoonup> Collection"

definition collections_exists :: "WeaviateClient \<Rightarrow> string \<Rightarrow> bool" where
  "collections_exists client n = (client n \<noteq> None)"

text \<open>Creating a collection under a name that is taken is refused by the client.\<close>

definition collections_create ::
  "WeaviateClient \<Rightarrow> string \<Rightarrow> Property list \<Rightarrow> VectorDistances \<Rightarrow> error + WeaviateClient" where
  "collections_create client n props metric =
     (if client n \<noteq> None
      then Inl (UnexpectedStatusCodeError ''collection already exists'')
      else Inr (client(n \<mapsto>
             \<lparr> schema_properties = props, distance_metric = metric, objects = [] \<rparr>)))"

definition collections_delete :: "WeaviateClient \<Rightarrow> string \<Rightarrow> WeaviateClient" where
  "collections_delete client n = client(n := None)"

text \<open>\<open>col.iterator(include_vector=True)\<close>: the objects of the collection, with their vectors.\<close>

definition collection_iterator :: "WeaviateClient \<Rightarrow> string \<Rightarrow> error + WeaviateObject list" where
  "collection_iterator client n =
     (case client n of
        None \<Rightarrow> Inl (UnexpectedStatusCodeError ''collection not found'')
      | Some col \<Rightarrow> Inr (objects col))"

text \<open>
  \<open>batch.add_object(properties=..., vector=...)\<close>: a new object with these properties and
  this vector as its default vector, after the objects the collection already holds.
\<close>

definition batch_add_object ::
  "WeaviateClient \<Rightarrow> string \<Rightarrow> dict \<Rightarrow> vector \<Rightarrow> error + WeaviateClient" where
  "batch_add_object client n props vec =
     (case client n of
        None \<Rightarrow> Inl (UnexpectedStatusCodeError ''collection not found'')
      | Some col \<Rightarrow>
          Inr (client(n \<mapsto>
            col\<lparr> objects := objects col @ [\<lparr> properties = props, vector = [(''default'', vec)] \<rparr>] \<rparr>)))"

subsection \<open>create\_collection\<close>

definition standard_schema :: "Property list" where
  "standard_schema =
     [\<lparr> name = ''content'', data_type = DataType_TEXT, index_filterable = None,
        index_range_filter = None, index_searchable = None \<rparr>,
      \<lparr> name = ''document_id'', data_type = DataType_TEXT, index_filterable = Some True,
        index_range_filter = None, index_searchable = None \<rparr>,
      \<lparr> name = ''chunk_index'', data_type = DataType_INT, index_filterable = Some True,
        index_range_filter = Some True, index_searchable = None \<rparr>,
      \<lparr> name = ''filename'', data_type = DataType_TEXT, index_filterable = Some True,
        index_range_filter = None, index_searchable = None \<rparr>,
      \<lparr> name = ''timestamp'', data_type = DataType_DATE, index_filterable = Some True,
        index_range_filter = None, index_searchable = None \<rparr>,
      \<lparr> name = ''mime_type'', data_type = DataType_TEXT, index_filterable = Some True,
        index_range_filter = None, index_searchable = None \<rparr>,
      \<lparr> name = ''source_url'', data_type = DataType_TEXT, index_filterable = Some True,
        index_range_filter = None, index_searchable = None \<rparr>,
      \<lparr> name = ''summary'', data_type = DataType_TEXT, index_filterable = Some True,
        index_range_filter = None, index_searchable = Some True \<rparr>,
      \<lparr> name = ''fingerprint'', data_type = DataType_TEXT, index_filterable = Some True,
        index_range_filter = None, index_searchable = None \<rparr>]"

definition create_collection ::
  "WeaviateClient \<Rightarrow> string \<Rightarrow> VectorDistances \<Rightarrow> error + WeaviateClient" where
  "create_collection client index_name metric =
     (if \<not> collections_exists client index_name
      then collections_create client index_name standard_schema metric
      else Inr client)"

subsection \<open>Document identity\<close>

text \<open>
  The helpers \<open>get_last_path_component\<close> and \<open>generate_fingerprint\<close> are not among the
  sources, and \<open>Path(p).name\<close>, \<open>hashlib.sha256(s.encode()).hexdigest()\<close> and the clock are
  library calls. All five are parameters of the model.
\<close>

record Library =
  path_name :: "string \<Rightarrow> string"
  get_last_path_component :: "string \<Rightarrow> string"
  generate_fingerprint :: "string \<Rightarrow> string"
  sha256_hexdigest :: "string \<Rightarrow> string"
  utcnow_strftime :: string

text \<open>\<open>s.startswith((p1, p2, ...))\<close>.\<close>

definition startswith :: "string \<Rightarrow> string list \<Rightarrow> bool" where
  "startswith s prefixes = list_ex (\<lambda>p. take (length p) s = p) prefixes"

definition prepare_document_metadata ::
  "Library \<Rightarrow> string \<Rightarrow> string \<Rightarrow> string \<Rightarrow> string \<Rightarrow> error + dict" where
  "prepare_document_metadata lib file_path text mime_type model' =
     (let is_url = startswith file_path [''http://'', ''https://''];
          fingerprint = generate_fingerprint lib text;
          metadata =
            [(''filename'',
                PyStr (if \<not> is_url then path_name lib file_path
                       else get_last_path_component lib file_path)),
             (''timestamp'', PyStr (utcnow_strftime lib)),
             (''mime_type'', PyStr mime_type),
             (''source_url'', PyStr (if is_url then file_path else ''None'')),
             (''fingerprint'', PyStr fingerprint)]
      in case dict_getitem metadata ''filename'' of
           Inl e \<Rightarrow> Inl e
         | Inr (PyStr filename) \<Rightarrow>
             Inr (dict_setitem metadata ''document_id'' (PyStr (sha256_hexdigest lib filename)))
         | Inr _ \<Rightarrow> Inl (TypeError ''object has no attribute encode''))"

definition get_document_id_from_path :: "Library \<Rightarrow> string \<Rightarrow> string \<times> string" where
  "get_document_id_from_path lib file_path =
     (let is_url = startswith file_path [''http://'', ''https://''];
          filename = (if \<not> is_url then path_name lib file_path
                      else get_last_path_component lib file_path);
          document_id = sha256_hexdigest lib filename
      in (document_id, filename))"

subsection \<open>check\_document\_exists and delete\_document\_from\_index\<close>

definition check_document_exists ::
  "'c CollectionAPI \<Rightarrow> 'c \<Rightarrow> string \<Rightarrow> string \<Rightarrow> error + (bool \<times> string)" where
  "check_document_exists api collection document_id fingerprint =
     (case query_fetch_objects api collection 1
             (by_property_equal ''document_id'' (PyStr document_id)) of
        Inl e \<Rightarrow> Inl e
      | Inr existing_docs \<Rightarrow>
          (case existing_docs of
             obj # _ \<Rightarrow>
               (case dict_getitem (properties obj) ''fingerprint'' of
                  Inl e \<Rightarrow> Inl e
                | Inr existing_fp \<Rightarrow>
                    if existing_fp = PyStr fingerprint then Inr (True, ''unchanged'')
                    else Inr (True, ''changed''))
           | [] \<Rightarrow>
               (case query_fetch_objects api collection 1
                       (by_property_equal ''fingerprint'' (PyStr fingerprint)) of
                  Inl e \<Rightarrow> Inl e
                | Inr existing_content \<Rightarrow>
                    if existing_content \<noteq> [] then Inr (True, ''duplicate'')
                    else Inr (False, ''new''))))"

text \<open>
  The result pairs what the call returns or raises with the collection it leaves behind:
  the RuntimeError is raised after \<open>delete_many\<close> has run.
\<close>

definition delete_document_from_index ::
  "'c CollectionAPI \<Rightarrow> 'c \<Rightarrow> string \<Rightarrow> string \<Rightarrow> (error + int) \<times> 'c" where
  "delete_document_from_index api collection document_id filename =
     (case aggregate_over_all api collection
             (by_property_equal ''document_id'' (PyStr document_id)) of
        Inl e \<Rightarrow> (Inl e, collection)
      | Inr original_count \<Rightarrow>
          (case data_delete_many api collection
                  (by_property_equal ''document_id'' (PyStr document_id)) of
             (Inl e, collection') \<Rightarrow> (Inl e, collection')
           | (Inr result, collection') \<Rightarrow>
               if successful result \<noteq> original_count
               then (Inl (RuntimeError (''Deleted '' @ str_int (successful result)
                            @ '' chunks but expected '' @ str_int original_count)),
                     collection')
               else (Inr (successful result), collection')))"

subsection \<open>rename\_collection\<close>

text \<open>
  The copy loop: for each object of the source, \<open>obj.vector["default"]\<close> (a KeyError when
  the object has no such vector) and \<open>batch.add_object\<close> on the target. After an exception
  the model does not say what the client holds.
\<close>

fun copy_objects :: "WeaviateClient \<Rightarrow> string \<Rightarrow> WeaviateObject list \<Rightarrow> error + WeaviateClient" where
  "copy_objects client target_col [] = Inr client"
| "copy_objects client target_col (obj # objs) =
     (case map_of (vector obj) ''default'' of
        None \<Rightarrow> Inl (KeyError ''default'')
      | Some vec \<Rightarrow>
          (case batch_add_object client target_col (properties obj) vec of
             Inl e \<Rightarrow> Inl e
           | Inr client' \<Rightarrow> copy_objects client' target_col objs))"

definition rename_collection ::
  "WeaviateClient \<Rightarrow> string \<Rightarrow> string \<Rightarrow> bool \<Rightarrow> error + (bool \<times> WeaviateClient)" where
  "rename_collection client source_name target_name overwrite =
     (if \<not> collections_exists client source_name then Inr (False, client)
      else if collections_exists client target_name \<and> \<not> overwrite then Inr (False, client)
      else
        (let client1 =
           (if collections_exists client target_name
            then collections_delete client target_name else client)
         in case create_collection client1 target_name COSINE of
              Inl e \<Rightarrow> Inl e
            | Inr client2 \<Rightarrow>
                (case collection_iterator client2 source_name of
                   Inl e \<Rightarrow> Inl e
                 | Inr source_objects \<Rightarrow>
                     (case copy_objects client2 target_name source_objects of
                        Inl e \<Rightarrow> Inl e
                      | Inr client3 \<Rightarrow>
                          Inr (True, collections_delete client3 source_name)))))"

subsection \<open>search\_collection\<close>

text \<open>
  The \<open>search_params\<close> dict. The filter is added only when \<open>filters\<close> is a dict with exactly
  one entry (\<open>if filters and len(filters) == 1\<close>).
\<close>

definition search_params :: "int \<Rightarrow> dict option \<Rightarrow> SearchParams" where
  "search_params limit' filters' =
     \<lparr> limit = limit',
       return_metadata = [''distance''],
       return_properties = [''filename'', ''content'', ''source_url'', ''timestamp''],
       filters =
         (case filters' of
            None \<Rightarrow> None
          | Some [] \<Rightarrow> None
          | Some [(key, val)] \<Rightarrow> Some (by_property_equal key val)
          | Some (_ # _ # _) \<Rightarrow> None) \<rparr>"

definition result_dict :: "QueryObject \<Rightarrow> dict" where
  "result_dict obj =
     [(''filename'', dict_get (properties obj) ''filename'' (PyStr ''Unknown'')),
      (''content'', dict_get (properties obj) ''content'' (PyStr [])),
      (''source_url'', dict_get (properties obj) ''source_url'' (PyStr [])),
      (''timestamp'', dict_get (properties obj) ''timestamp'' (PyStr [])),
      (''distance'', distance obj)]"

text \<open>
  The embedding model is an external library: \<open>embed_model\<close> stands for
  \<open>list(embed_model.embed([query]))[0].tolist()\<close>, which may raise.
\<close>

definition search_collection ::
  "'c CollectionAPI \<Rightarrow> 'c \<Rightarrow> string \<Rightarrow> (string \<Rightarrow> error + vector) \<Rightarrow> int \<Rightarrow> dict option
     \<Rightarrow> error + dict list" where
  "search_collection api collection query embed_model limit' filters' =
     (case embed_model query of
        Inl e \<Rightarrow> Inl e
      | Inr query_vector \<Rightarrow>
          (case query_near_vector api collection query_vector (search_params limit' filters') of
             Inl e \<Rightarrow> Inl e
           | Inr result_objects \<Rightarrow> Inr (map result_dict result_objects)))"

section \<open>Example data\<close>

text \<open>
  Concrete collections, clients and stand-ins for the external calls, on which the
  theorems below are instantiated and the model is run.
\<close>

definition example_chunks :: "WeaviateObject list" where
  "example_chunks =
     [\<lparr> properties = [(''document_id'', PyStr ''d1''), (''chunk_index'', PyInt 0),
                       (''fingerprint'', PyStr ''fp-old'')],
        vector = [(''default'', [1, 0])] \<rparr>,
      \<lparr> properties = [(''document_id'', PyStr ''d1''), (''chunk_index'', PyInt 1),
                       (''fingerprint'', PyStr ''fp-new'')],
        vector = [(''default'', [0, 1])] \<rparr>,
      \<lparr> properties = [(''document_id'', PyStr ''d2''), (''chunk_index'', PyInt 0),
                       (''fingerprint'', PyStr ''fp-other'')],
        vector = [(''default'', [1, 1])] \<rparr>]"

definition example_collection :: "WeaviateObject list CollectionAPI" where
  "example_collection = memory_collection (\<lambda>objs query_vector params. Inr [])"

text \<open>
  A client whose \<open>delete_many\<close> fails on the first matching object: it reports that
  object as failed and the others as successful, and keeps the failed one.
\<close>

definition first_delete_fails :: "WeaviateObject list CollectionAPI" where
  "first_delete_fails =
     \<lparr> query_fetch_objects = memory_fetch_objects,
       aggregate_over_all = memory_over_all,
       data_delete_many =
         (\<lambda>objs flt.
            case filter (filter_matches flt) objs of
              [] \<Rightarrow> (Inr \<lparr> failed = 0, matches = 0, successful = 0 \<rparr>, objs)
            | kept # gone \<Rightarrow>
                (Inr \<lparr> failed = 1, matches = 1 + int (length gone),
                        successful = int (length gone) \<rparr>,
                 filter (\<lambda>obj. \<not> filter_matches flt obj \<or> obj = kept) objs)),
       query_near_vector = (\<lambda>objs query_vector params. Inr []) \<rparr>"

text \<open>
  A client whose vector search answers with one object that tells which limit and which
  filter it was called with.
\<close>

definition echo_collection :: "unit CollectionAPI" where
  "echo_collection =
     \<lparr> query_fetch_objects = (\<lambda>c n flt. Inr []),
       aggregate_over_all = (\<lambda>c flt. Inr 0),
       data_delete_many = (\<lambda>c flt. (Inr \<lparr> failed = 0, matches = 0, successful = 0 \<rparr>, c)),
       query_near_vector =
         (\<lambda>c query_vector params.
            Inr [\<lparr> properties =
                     [(''content'',
                         (case filters params of
                            None \<Rightarrow> PyStr ''no filter''
                          | Some (by_property_equal k v) \<Rightarrow> PyStr (''filter on '' @ k))),
                      (''timestamp'', PyInt (limit params))],
                   vector = [],
                   distance = PyFloat (1 / 4) \<rparr>]) \<rparr>"

definition example_embed :: "string \<Rightarrow> error + vector" where
  "example_embed query = Inr [1, 0]"

definition example_client :: WeaviateClient where
  "example_client =
     [''docs'' \<mapsto> \<lparr> schema_properties = standard_schema, distance_metric = DOT,
                     objects = example_chunks \<rparr>]"

text \<open>A collection with one object that was stored without a vector and without a fingerprint.\<close>

definition example_bare_chunks :: "WeaviateObject list" where
  "example_bare_chunks =
     [\<lparr> properties = [(''document_id'', PyStr ''d4''), (''chunk_index'', PyInt 0)],
        vector = [] \<rparr>]"

definition example_bare_client :: WeaviateClient where
  "example_bare_client =
     [''docs'' \<mapsto> \<lparr> schema_properties = standard_schema, distance_metric = COSINE,
                     objects = example_bare_chunks \<rparr>]"

definition example_library :: Library where
  "example_library =
     \<lparr> path_name = (\<lambda>p. rev (takeWhile (\<lambda>c. c \<noteq> CHR ''/'') (rev p))),
       get_last_path_component = (\<lambda>p. rev (takeWhile (\<lambda>c. c \<noteq> CHR ''/'') (rev p))),
       generate_fingerprint = (\<lambda>t. ''fp:'' @ t),
       sha256_hexdigest = (\<lambda>s. ''sha256:'' @ s),
       utcnow_strftime = ''2025-01-01T00:00:00Z'' \<rparr>"

section \<open>Properties of events.py\<close>

lemma py_getitem_dict: "py_getitem (PyDict d) (PyStr k) = dict_getitem d k"
  by (simp add: py_getitem_def)

lemma py_getitem_last:
  "xs \<noteq> [] \<Longrightarrow> py_getitem (PyList xs) (PyInt (- 1)) = Inr (last xs)"
proof -
  assume ne: "xs \<noteq> []"
  then have len: "0 < length xs" by simp
  have idx: "nat (int (length xs) - 1) = length xs - Suc 0"
    using len by linarith
  show ?thesis
    using ne len by (simp add: py_getitem_def Let_def idx last_conv_nth)
qed

text \<open>
  C9. A \<open>TurnEnd\<close> event hands back the messages list and the context variables it was
  built from, unchanged, and for a non-empty messages list its \<open>result\<close> is the
  \<open>'content'\<close> entry of the last message (the subscript \<open>m['content']\<close> on that message,
  including its KeyError when the entry is absent).
\<close>

theorem TurnEnd_carries_its_arguments:
  "TurnEnd_messages (TurnEnd a messages cv) = Inr (PyList messages) \<and>
   TurnEnd_context_variables (TurnEnd a messages cv) = Inr (PyDict cv) \<and>
   (messages \<noteq> [] \<longrightarrow>
      TurnEnd_result (TurnEnd a messages cv) = py_getitem (last messages) (PyStr ''content''))"
  by (simp add: TurnEnd_def TurnEnd_messages_def TurnEnd_context_variables_def
      TurnEnd_result_def py_getitem_dict dict_getitem_def py_getitem_last)

theorem TurnEnd_carries_its_arguments_witness:
  "TurnEnd_messages
     (TurnEnd ''bot'' [PyDict [(''role'', PyStr ''user''), (''content'', PyStr ''hi'')],
                       PyDict [(''role'', PyStr ''assistant''), (''content'', PyStr ''done'')]]
        [(''k'', PyInt 1)])
     = Inr (PyList [PyDict [(''role'', PyStr ''user''), (''content'', PyStr ''hi'')],
                    PyDict [(''role'', PyStr ''assistant''), (''content'', PyStr ''done'')]]) \<and>
   TurnEnd_context_variables
     (TurnEnd ''bot'' [PyDict [(''role'', PyStr ''user''), (''content'', PyStr ''hi'')],
                       PyDict [(''role'', PyStr ''assistant''), (''content'', PyStr ''done'')]]
        [(''k'', PyInt 1)])
     = Inr (PyDict [(''k'', PyInt 1)]) \<and>
   TurnEnd_result
     (TurnEnd ''bot'' [PyDict [(''role'', PyStr ''user''), (''content'', PyStr ''hi'')],
                       PyDict [(''role'', PyStr ''assistant''), (''content'', PyStr ''done'')]]
        [(''k'', PyInt 1)])
     = Inr (PyStr ''done'')"
  using TurnEnd_carries_its_arguments
    [of "''bot''"
        "[PyDict [(''role'', PyStr ''user''), (''content'', PyStr ''hi'')],
          PyDict [(''role'', PyStr ''assistant''), (''content'', PyStr ''done'')]]"
        "[(''k'', PyInt 1)]"]
  by (simp add: py_getitem_dict dict_getitem_def)

text \<open>
  C6. Each of the three result classes is built with its own sentinel as value, so its
  \<open>matches_sentinel\<close> accepts it; the three sentinel strings are pairwise distinct, so
  each \<open>matches_sentinel\<close> rejects the values of the other two classes.
\<close>

theorem sentinel_results_match_own_class_only:
  "PauseForInputResult_matches_sentinel (PyStr (value' (PauseForInputResult request_keys))) \<and>
   PauseForChildResult_matches_sentinel (PyStr (value' (PauseForChildResult values))) \<and>
   FinishAgentResult_matches_sentinel (PyStr (value' FinishAgentResult)) \<and>
   PAUSE_FOR_INPUT_SENTINEL \<noteq> PAUSE_FOR_CHILD_SENTINEL \<and>
   PAUSE_FOR_INPUT_SENTINEL \<noteq> FINISH_AGENT_SENTINEL \<and>
   PAUSE_FOR_CHILD_SENTINEL \<noteq> FINISH_AGENT_SENTINEL \<and>
   \<not> PauseForInputResult_matches_sentinel (PyStr (value' (PauseForChildResult values))) \<and>
   \<not> PauseForInputResult_matches_sentinel (PyStr (value' FinishAgentResult)) \<and>
   \<not> PauseForChildResult_matches_sentinel (PyStr (value' (PauseForInputResult request_keys))) \<and>
   \<not> PauseForChildResult_matches_sentinel (PyStr (value' FinishAgentResult)) \<and>
   \<not> FinishAgentResult_matches_sentinel (PyStr (value' (PauseForInputResult request_keys))) \<and>
   \<not> FinishAgentResult_matches_sentinel (PyStr (value' (PauseForChildResult values)))"
  by (simp add: PauseForInputResult_def PauseForChildResult_def FinishAgentResult_def
      PauseForInputResult_matches_sentinel_def PauseForChildResult_matches_sentinel_def
      FinishAgentResult_matches_sentinel_def PAUSE_FOR_INPUT_SENTINEL_def
      PAUSE_FOR_CHILD_SENTINEL_def FINISH_AGENT_SENTINEL_def)

theorem sentinel_results_match_own_class_only_witness:
  "PauseForInputResult_matches_sentinel
     (PyStr (value' (PauseForInputResult [(''name'', PyStr ''your name?'')]))) \<and>
   \<not> PauseForChildResult_matches_sentinel
     (PyStr (value' (PauseForInputResult [(''name'', PyStr ''your name?'')]))) \<and>
   \<not> FinishAgentResult_matches_sentinel
     (PyStr (value' (PauseForInputResult [(''name'', PyStr ''your name?'')]))) \<and>
   PauseForChildResult_matches_sentinel (PyStr (value' (PauseForChildResult []))) \<and>
   FinishAgentResult_matches_sentinel (PyStr (value' FinishAgentResult))"
  using sentinel_results_match_own_class_only [of "[(''name'', PyStr ''your name?'')]" "[]"]
  by simp

section \<open>Properties of tools/browser\_use.py\<close>

text \<open>
  What \<open>FinishCompletion.create\<close> builds when it is called with exactly its own parameters:
  the event the claim C4 describes.
\<close>

lemma FinishCompletion_create_own_parameters:
  "FinishCompletion_create
     [(''agent'', a), (''llm_message'', m), (''model'', md), (''cost'', PyInt 0),
      (''input_tokens'', PyInt i), (''output_tokens'', PyInt out), (''elapsed_time'', PyInt 0)]
   = Inr \<lparr> agent = a, type = ''completion_end'', payload = m, depth = 0,
           metadata = [(''model'', md), (''cost'', PyInt 0), (''input_tokens'', PyInt i),
                       (''output_tokens'', PyInt out), (''elapsed_time'', PyInt 0)] \<rparr>"
  by (simp add: FinishCompletion_create_def bind_keywords_def FinishCompletion_create_params_def
      FinishCompletion_init_def dict_get_def py_or_def MODEL_KEY_def COST_KEY_def
      INPUT_TOKENS_KEY_def OUTPUT_TOKENS_KEY_def ELAPSED_TIME_KEY_def)

text \<open>
  C4. \<open>run_browser_agent\<close> calls \<open>FinishCompletion.create\<close> with the keyword \<open>depth\<close>, which
  is not a parameter of \<open>create\<close>. So whenever the external agent's run succeeds, the call
  raises TypeError and no list is returned.
\<close>

theorem run_browser_agent_raises_on_success:
  "agent_run instructions (model self)
      (case chrome_instance_path self of
         None \<Rightarrow> None | Some path \<Rightarrow> if path = [] then None else Some path) = Inr r \<Longrightarrow>
   run_browser_agent agent_run self run_context instructions model_arg
     = Inl (TypeError ''FinishCompletion.create() got an unexpected keyword argument depth'')"
proof -
  assume run: "agent_run instructions (model self)
      (case chrome_instance_path self of
         None \<Rightarrow> None | Some path \<Rightarrow> if path = [] then None else Some path) = Inr r"
  obtain content responses where r: "r = (content, responses)" by (cases r)
  have bind: "\<And>a m md c i out el d.
    bind_keywords ''FinishCompletion.create'' FinishCompletion_create_params
      [(''agent'', a), (''llm_message'', m), (''model'', md), (''cost'', c),
       (''input_tokens'', i), (''output_tokens'', out), (''elapsed_time'', el), (''depth'', d)]
    = Inl (TypeError ''FinishCompletion.create() got an unexpected keyword argument depth'')"
    by (simp add: bind_keywords_def FinishCompletion_create_params_def)
  show ?thesis
    using run by (simp add: run_browser_agent_def Let_def r FinishCompletion_create_def bind)
qed

theorem run_browser_agent_raises_on_success_witness:
  "run_browser_agent example_agent_run \<lparr> chrome_instance_path = None, model = ''gpt-4o-mini'' \<rparr>
     \<lparr> agent_name = ''Browser Agent'' \<rparr> ''open example.com'' None
     = Inl (TypeError ''FinishCompletion.create() got an unexpected keyword argument depth'')"
  using run_browser_agent_raises_on_success
    [of example_agent_run "''open example.com''"
        "\<lparr> chrome_instance_path = None, model = ''gpt-4o-mini'' \<rparr>"
        "([''Example Domain'', ''More information...''],
          [\<lparr> llm_output = Some [(''token_usage'', [(''prompt_tokens'', 120), (''completion_tokens'', 30)])] \<rparr>])"
        "\<lparr> agent_name = ''Browser Agent'' \<rparr>" None]
  by (simp add: example_agent_run_def)

section \<open>Properties of utils/rag\_helper.py\<close>

subsection \<open>create\_collection\<close>

text \<open>
  C7. When \<open>index_name\<close> exists, \<open>create_collection\<close> leaves the client as it is; and in
  every state a second call with the same arguments returns the client the first call
  produced, so calling twice equals calling once.
\<close>

theorem create_collection_idempotent:
  "(collections_exists client index_name \<longrightarrow>
      create_collection client index_name metric = Inr client) \<and>
   (\<exists>client'. create_collection client index_name metric = Inr client' \<and>
      create_collection client' index_name metric = Inr client')"
  by (simp add: create_collection_def collections_exists_def collections_create_def)

theorem create_collection_idempotent_witness:
  "create_collection example_client ''docs'' COSINE = Inr example_client \<and>
   (\<exists>client'. create_collection example_client ''docs'' COSINE = Inr client' \<and>
      create_collection client' ''docs'' COSINE = Inr client')"
  using create_collection_idempotent [of example_client "''docs''" COSINE]
  by (simp add: collections_exists_def example_client_def)

subsection \<open>Document identity\<close>

text \<open>
  C10. \<open>prepare_document_metadata\<close> always returns a dict, whose \<open>document_id\<close> is the first
  component of \<open>get_document_id_from_path(file_path)\<close>: the SHA-256 hex digest of the
  filename extracted from the path (by \<open>get_last_path_component\<close> for an http or https
  URL, by \<open>Path(file_path).name\<close> otherwise). It depends on none of text, mime type, model.
\<close>

theorem document_id_depends_on_path_only:
  "\<exists>metadata.
     prepare_document_metadata lib file_path text mime_type model' = Inr metadata \<and>
     dict_getitem metadata ''document_id''
       = Inr (PyStr (fst (get_document_id_from_path lib file_path))) \<and>
     fst (get_document_id_from_path lib file_path)
       = sha256_hexdigest lib
           (if startswith file_path [''http://'', ''https://'']
            then get_last_path_component lib file_path else path_name lib file_path)"
  by (simp add: prepare_document_metadata_def get_document_id_from_path_def Let_def
      dict_getitem_def)

theorem document_id_depends_on_path_only_witness:
  "\<exists>metadata.
     prepare_document_metadata example_library ''/tmp/notes/report.pdf'' ''some text''
       ''application/pdf'' ''gpt-4o-mini'' = Inr metadata \<and>
     dict_getitem metadata ''document_id'' = Inr (PyStr ''sha256:report.pdf'') \<and>
     fst (get_document_id_from_path example_library ''/tmp/notes/report.pdf'')
       = ''sha256:report.pdf''"
proof -
  have digest: "fst (get_document_id_from_path example_library ''/tmp/notes/report.pdf'')
      = ''sha256:report.pdf''"
    by (simp add: get_document_id_from_path_def example_library_def startswith_def Let_def)
  from document_id_depends_on_path_only
    [of example_library "''/tmp/notes/report.pdf''" "''some text''" "''application/pdf''"
        "''gpt-4o-mini''"]
  obtain metadata where
    "prepare_document_metadata example_library ''/tmp/notes/report.pdf'' ''some text''
       ''application/pdf'' ''gpt-4o-mini'' = Inr metadata"
    "dict_getitem metadata ''document_id''
       = Inr (PyStr (fst (get_document_id_from_path example_library ''/tmp/notes/report.pdf'')))"
    by blast
  with digest show ?thesis by simp
qed

subsection \<open>check\_document\_exists\<close>

lemma take_1_filter:
  "take (Suc 0) (filter P xs) = (case find P xs of None \<Rightarrow> [] | Some x \<Rightarrow> [x])"
  by (induction xs) auto

lemma find_None_list_ex: "(find P xs = None) = (\<not> list_ex P xs)"
  by (induction xs) auto

text \<open>
  C5 (amended). On a collection held in memory, \<open>check_document_exists\<close> decides on the
  first object the client returns for the document id: \<open>unchanged\<close> when that object's
  fingerprint is the given one, \<open>changed\<close> when it is another value, a KeyError when the
  object has no fingerprint. When no object has the document id, the result is
  \<open>duplicate\<close> if some object has the fingerprint and \<open>new\<close> otherwise. With any client, a
  returned boolean is True exactly when the status is not \<open>new\<close>.
\<close>

theorem check_document_exists_first_match:
  "check_document_exists (memory_collection near_vector) objs document_id fingerprint =
     (case find (filter_matches (by_property_equal ''document_id'' (PyStr document_id))) objs of
        Some obj \<Rightarrow>
          (case map_of (properties obj) ''fingerprint'' of
             None \<Rightarrow> Inl (KeyError ''fingerprint'')
           | Some existing_fp \<Rightarrow>
               if existing_fp = PyStr fingerprint then Inr (True, ''unchanged'')
               else Inr (True, ''changed''))
      | None \<Rightarrow>
          if list_ex (filter_matches (by_property_equal ''fingerprint'' (PyStr fingerprint))) objs
          then Inr (True, ''duplicate'') else Inr (False, ''new'')) \<and>
   (check_document_exists api collection document_id fingerprint = Inr (b, status) \<longrightarrow>
      b = (status \<noteq> ''new''))"
proof
  show "check_document_exists (memory_collection near_vector) objs document_id fingerprint =
     (case find (filter_matches (by_property_equal ''document_id'' (PyStr document_id))) objs of
        Some obj \<Rightarrow>
          (case map_of (properties obj) ''fingerprint'' of
             None \<Rightarrow> Inl (KeyError ''fingerprint'')
           | Some existing_fp \<Rightarrow>
               if existing_fp = PyStr fingerprint then Inr (True, ''unchanged'')
               else Inr (True, ''changed''))
      | None \<Rightarrow>
          if list_ex (filter_matches (by_property_equal ''fingerprint'' (PyStr fingerprint))) objs
          then Inr (True, ''duplicate'') else Inr (False, ''new''))"
    by (simp add: check_document_exists_def memory_collection_def memory_fetch_objects_def
        take_1_filter dict_getitem_def find_None_list_ex [symmetric]
        split: option.splits)
  show "check_document_exists api collection document_id fingerprint = Inr (b, status) \<longrightarrow>
      b = (status \<noteq> ''new'')"
    by (auto simp: check_document_exists_def split: sum.splits list.splits if_splits)
qed

theorem check_document_exists_first_match_witness:
  "check_document_exists example_collection example_chunks ''d1'' ''fp-old''
     = Inr (True, ''unchanged'') \<and>
   check_document_exists example_collection example_chunks ''d2'' ''fp-new''
     = Inr (True, ''changed'') \<and>
   check_document_exists example_collection example_chunks ''d3'' ''fp-other''
     = Inr (True, ''duplicate'') \<and>
   check_document_exists example_collection example_chunks ''d3'' ''fp-fresh''
     = Inr (False, ''new'')"
  using
    check_document_exists_first_match
      [of "\<lambda>objs query_vector params. Inr []" example_chunks "''d1''" "''fp-old''"
          example_collection example_chunks True "''unchanged''"]
    check_document_exists_first_match
      [of "\<lambda>objs query_vector params. Inr []" example_chunks "''d2''" "''fp-new''"
          example_collection example_chunks True "''changed''"]
    check_document_exists_first_match
      [of "\<lambda>objs query_vector params. Inr []" example_chunks "''d3''" "''fp-other''"
          example_collection example_chunks True "''duplicate''"]
    check_document_exists_first_match
      [of "\<lambda>objs query_vector params. Inr []" example_chunks "''d3''" "''fp-fresh''"
          example_collection example_chunks False "''new''"]
  by (simp add: example_collection_def example_chunks_def)

text \<open>
  The claim C5 as stated fails where two objects share a document id and differ in their
  fingerprints: an object with the document id \<open>d1\<close> and the fingerprint \<open>fp-new\<close> exists,
  and the answer is \<open>changed\<close>, because the first object returned has \<open>fp-old\<close>. And
  where the object found has no fingerprint, the call raises.
\<close>

theorem check_document_exists_later_chunk_ignored:
  "\<lparr> properties = [(''document_id'', PyStr ''d1''), (''chunk_index'', PyInt 1),
                    (''fingerprint'', PyStr ''fp-new'')],
     vector = [(''default'', [0, 1])] \<rparr> \<in> set example_chunks \<and>
   check_document_exists example_collection example_chunks ''d1'' ''fp-new''
     = Inr (True, ''changed'') \<and>
   check_document_exists example_collection example_bare_chunks ''d4'' ''fp-new''
     = Inl (KeyError ''fingerprint'')"
  by (simp add: check_document_exists_def example_collection_def memory_collection_def
      memory_fetch_objects_def example_chunks_def example_bare_chunks_def dict_getitem_def)

subsection \<open>delete\_document\_from\_index\<close>

text \<open>
  C1 (amended). An exception of the client's count or of its \<open>delete_many\<close> is passed on.
  When both calls return, \<open>delete_document_from_index\<close> returns the number the client
  reports as successfully deleted if that number equals the count taken before the
  deletion, and raises a RuntimeError of its own otherwise; in both cases the deletion has
  been carried out. On the collection held in memory, where \<open>delete_many\<close> removes every
  match, it returns the number of objects with the document id and removes them.
\<close>

theorem delete_document_from_index_outcomes:
  "(aggregate_over_all api collection (by_property_equal ''document_id'' (PyStr document_id))
      = Inl e
      \<longrightarrow> delete_document_from_index api collection document_id filename
            = (Inl e, collection)) \<and>
   (aggregate_over_all api collection (by_property_equal ''document_id'' (PyStr document_id))
      = Inr n \<and>
    data_delete_many api collection (by_property_equal ''document_id'' (PyStr document_id))
      = (Inl e, collection')
      \<longrightarrow> delete_document_from_index api collection document_id filename
            = (Inl e, collection')) \<and>
   (aggregate_over_all api collection (by_property_equal ''document_id'' (PyStr document_id))
      = Inr n \<and>
    data_delete_many api collection (by_property_equal ''document_id'' (PyStr document_id))
      = (Inr result, collection')
      \<longrightarrow> delete_document_from_index api collection document_id filename
            = (if successful result = n then Inr (successful result)
               else Inl (RuntimeError (''Deleted '' @ str_int (successful result)
                           @ '' chunks but expected '' @ str_int n)),
               collection')) \<and>
   delete_document_from_index (memory_collection near_vector) objs document_id' filename
     = (Inr (int (length (filter
               (filter_matches (by_property_equal ''document_id'' (PyStr document_id'))) objs))),
        filter (\<lambda>obj. \<not> filter_matches (by_property_equal ''document_id'' (PyStr document_id')) obj)
          objs)"
  by (simp add: delete_document_from_index_def memory_collection_def memory_over_all_def
      memory_delete_many_def Let_def)

theorem delete_document_from_index_outcomes_witness:
  "delete_document_from_index first_delete_fails example_chunks ''d2'' ''other.pdf''
     = (Inl (RuntimeError ''Deleted 0 chunks but expected 1''), example_chunks) \<and>
   delete_document_from_index example_collection example_chunks ''d1'' ''other.pdf''
     = (Inr 2,
        [\<lparr> properties = [(''document_id'', PyStr ''d2''), (''chunk_index'', PyInt 0),
                          (''fingerprint'', PyStr ''fp-other'')],
           vector = [(''default'', [1, 1])] \<rparr>])"
  using
    delete_document_from_index_outcomes
      [of first_delete_fails example_chunks "''d2''" IndexError "''other.pdf''" 1
          example_chunks "\<lparr> failed = 1, matches = 1, successful = 0 \<rparr>"
          "\<lambda>objs query_vector params. Inr []" example_chunks "''d1''"]
  by (simp add: example_collection_def example_chunks_def first_delete_fails_def
      memory_over_all_def str_int_def digit_char_def)

text \<open>
  The claim C1 as stated fails with a client that reports a failed deletion: both client
  calls return normally, and the function raises its own RuntimeError.
\<close>

theorem delete_document_from_index_own_error:
  "aggregate_over_all first_delete_fails example_chunks
      (by_property_equal ''document_id'' (PyStr ''d1'')) = Inr 2 \<and>
   fst (data_delete_many first_delete_fails example_chunks
          (by_property_equal ''document_id'' (PyStr ''d1'')))
     = Inr \<lparr> failed = 1, matches = 2, successful = 1 \<rparr> \<and>
   fst (delete_document_from_index first_delete_fails example_chunks ''d1'' ''report.pdf'')
     = Inl (RuntimeError ''Deleted 1 chunks but expected 2'')"
  by (simp add: delete_document_from_index_def first_delete_fails_def memory_over_all_def
      example_chunks_def str_int_def digit_char_def)

subsection \<open>search\_collection\<close>

text \<open>
  C3 (amended). For a filters dict with exactly one entry, \<open>search_collection\<close> calls the
  client's \<open>near_vector\<close> with the embedded query, the caller's limit and the equality
  filter on that entry, and returns one dict per result object, in the client's order,
  with the object's filename, content, source\_url and timestamp (\<open>Unknown\<close> and the empty
  string where the object has none) and its distance. For every other value of filters
  (\<open>None\<close>, the empty dict, a dict with more than one entry) it makes the same call with
  no filter and shapes the results in the same way.
\<close>

theorem search_collection_single_filter:
  assumes "embed_model query = Inr query_vector"
  shows
    "(query_near_vector api collection query_vector
        \<lparr> limit = limit',
          return_metadata = [''distance''],
          return_properties = [''filename'', ''content'', ''source_url'', ''timestamp''],
          filters = Some (by_property_equal key val) \<rparr> = Inr result_objects \<longrightarrow>
      search_collection api collection query embed_model limit' (Some [(key, val)])
        = Inr (map (\<lambda>obj.
                 [(''filename'', dict_get (properties obj) ''filename'' (PyStr ''Unknown'')),
                  (''content'', dict_get (properties obj) ''content'' (PyStr [])),
                  (''source_url'', dict_get (properties obj) ''source_url'' (PyStr [])),
                  (''timestamp'', dict_get (properties obj) ''timestamp'' (PyStr [])),
                  (''distance'', distance obj)]) result_objects)) \<and>
     ((filters' = None \<or> (\<exists>entries. filters' = Some entries \<and> length entries \<noteq> 1)) \<and>
      query_near_vector api collection query_vector
        \<lparr> limit = limit',
          return_metadata = [''distance''],
          return_properties = [''filename'', ''content'', ''source_url'', ''timestamp''],
          filters = None \<rparr> = Inr unfiltered_objects \<longrightarrow>
      search_collection api collection query embed_model limit' filters'
        = Inr (map (\<lambda>obj.
                 [(''filename'', dict_get (properties obj) ''filename'' (PyStr ''Unknown'')),
                  (''content'', dict_get (properties obj) ''content'' (PyStr [])),
                  (''source_url'', dict_get (properties obj) ''source_url'' (PyStr [])),
                  (''timestamp'', dict_get (properties obj) ''timestamp'' (PyStr [])),
                  (''distance'', distance obj)]) unfiltered_objects))"
proof (intro conjI impI)
  assume "query_near_vector api collection query_vector
        \<lparr> limit = limit',
          return_metadata = [''distance''],
          return_properties = [''filename'', ''content'', ''source_url'', ''timestamp''],
          filters = Some (by_property_equal key val) \<rparr> = Inr result_objects"
  with assms show "search_collection api collection query embed_model limit' (Some [(key, val)])
        = Inr (map (\<lambda>obj.
                 [(''filename'', dict_get (properties obj) ''filename'' (PyStr ''Unknown'')),
                  (''content'', dict_get (properties obj) ''content'' (PyStr [])),
                  (''source_url'', dict_get (properties obj) ''source_url'' (PyStr [])),
                  (''timestamp'', dict_get (properties obj) ''timestamp'' (PyStr [])),
                  (''distance'', distance obj)]) result_objects)"
    by (simp add: search_collection_def search_params_def result_dict_def)
next
  assume h: "(filters' = None \<or> (\<exists>entries. filters' = Some entries \<and> length entries \<noteq> 1)) \<and>
      query_near_vector api collection query_vector
        \<lparr> limit = limit',
          return_metadata = [''distance''],
          return_properties = [''filename'', ''content'', ''source_url'', ''timestamp''],
          filters = None \<rparr> = Inr unfiltered_objects"
  have params: "search_params limit' filters'
      = \<lparr> limit = limit',
          return_metadata = [''distance''],
          return_properties = [''filename'', ''content'', ''source_url'', ''timestamp''],
          filters = None \<rparr>"
  proof (cases filters')
    case None
    then show ?thesis by (simp add: search_params_def)
  next
    case (Some entries)
    with h have len: "length entries \<noteq> 1" by auto
    show ?thesis
    proof (cases entries)
      case Nil
      with Some show ?thesis by (simp add: search_params_def)
    next
      case (Cons e rest)
      with len obtain e' rest' where "rest = e' # rest'" by (cases rest) auto
      with Some Cons show ?thesis by (simp add: search_params_def split: prod.splits)
    qed
  qed
  from h assms show "search_collection api collection query embed_model limit' filters'
        = Inr (map (\<lambda>obj.
                 [(''filename'', dict_get (properties obj) ''filename'' (PyStr ''Unknown'')),
                  (''content'', dict_get (properties obj) ''content'' (PyStr [])),
                  (''source_url'', dict_get (properties obj) ''source_url'' (PyStr [])),
                  (''timestamp'', dict_get (properties obj) ''timestamp'' (PyStr [])),
                  (''distance'', distance obj)]) unfiltered_objects)"
    by (simp add: search_collection_def params result_dict_def)
qed

theorem search_collection_single_filter_witness:
  "search_collection echo_collection () ''billing'' example_embed 5
     (Some [(''mime_type'', PyStr ''text/plain'')])
   = Inr [[(''filename'', PyStr ''Unknown''),
           (''content'', PyStr ''filter on mime_type''),
           (''source_url'', PyStr []),
           (''timestamp'', PyInt 5),
           (''distance'', PyFloat (1 / 4))]] \<and>
   search_collection echo_collection () ''billing'' example_embed 5 None
   = Inr [[(''filename'', PyStr ''Unknown''),
           (''content'', PyStr ''no filter''),
           (''source_url'', PyStr []),
           (''timestamp'', PyInt 5),
           (''distance'', PyFloat (1 / 4))]] \<and>
   search_collection echo_collection () ''billing'' example_embed 5
     (Some [(''mime_type'', PyStr ''text/plain''), (''filename'', PyStr ''a.txt''),
            (''source_url'', PyStr ''None'')])
   = Inr [[(''filename'', PyStr ''Unknown''),
           (''content'', PyStr ''no filter''),
           (''source_url'', PyStr []),
           (''timestamp'', PyInt 5),
           (''distance'', PyFloat (1 / 4))]]"
proof -
  have embedded: "example_embed ''billing'' = Inr [1, 0]"
    by (simp add: example_embed_def)
  note inst = search_collection_single_filter
     [where embed_model = example_embed and query = "''billing''" and query_vector = "[1, 0]"
        and api = echo_collection and collection = "()" and limit' = 5
        and key = "''mime_type''" and val = "PyStr ''text/plain''"
        and result_objects =
          "[\<lparr> properties = [(''content'', PyStr ''filter on mime_type''), (''timestamp'', PyInt 5)],
              vector = [], distance = PyFloat (1 / 4) \<rparr>]"
        and unfiltered_objects =
          "[\<lparr> properties = [(''content'', PyStr ''no filter''), (''timestamp'', PyInt 5)],
              vector = [], distance = PyFloat (1 / 4) \<rparr>]"]
  show ?thesis
    using inst [where filters' = None, OF embedded]
      inst [where filters' = "Some [(''mime_type'', PyStr ''text/plain''),
                                     (''filename'', PyStr ''a.txt''),
                                     (''source_url'', PyStr ''None'')]", OF embedded]
    by (simp add: echo_collection_def dict_get_def)
qed

text \<open>
  The claim C3 as stated fails for a filters dict with two entries: no filter reaches the
  client.
\<close>

theorem search_collection_two_filters_forward_none:
  "search_collection echo_collection () ''billing'' example_embed 5
     (Some [(''mime_type'', PyStr ''text/plain''), (''filename'', PyStr ''a.txt'')])
   = Inr [[(''filename'', PyStr ''Unknown''),
           (''content'', PyStr ''no filter''),
           (''source_url'', PyStr []),
           (''timestamp'', PyInt 5),
           (''distance'', PyFloat (1 / 4))]]"
  by (simp add: search_collection_def search_params_def result_dict_def example_embed_def
      echo_collection_def dict_get_def)

subsection \<open>rename\_collection\<close>

text \<open>
  C8. \<open>rename_collection\<close> returns False exactly when the source does not exist or the
  target exists and overwrite is false, and then the client is the one it was called with.
\<close>

theorem rename_collection_False_unchanged:
  "(rename_collection client source_name target_name overwrite = Inr (False, client')) =
   (client' = client \<and>
    (\<not> collections_exists client source_name \<or>
     (collections_exists client target_name \<and> \<not> overwrite)))"
  by (auto simp: rename_collection_def Let_def split: sum.splits)

theorem rename_collection_False_unchanged_witness:
  "rename_collection example_client ''drafts'' ''archive'' True = Inr (False, example_client) \<and>
   rename_collection example_client ''docs'' ''docs'' False = Inr (False, example_client)"
  using
    rename_collection_False_unchanged
      [of example_client "''drafts''" "''archive''" True example_client]
    rename_collection_False_unchanged
      [of example_client "''docs''" "''docs''" False example_client]
  by (simp add: collections_exists_def example_client_def)

lemma copy_objects_appends:
  "client target_name = Some tc \<Longrightarrow>
   list_all (\<lambda>obj. map_of (vector obj) ''default'' \<noteq> None) objs \<Longrightarrow>
   \<exists>new. copy_objects client target_name objs
           = Inr (client(target_name \<mapsto> tc\<lparr> objects := objects tc @ new \<rparr>)) \<and>
         map properties new = map properties objs \<and>
         map (\<lambda>obj. map_of (vector obj) ''default'') new
           = map (\<lambda>obj. map_of (vector obj) ''default'') objs \<and>
         (list_all (\<lambda>obj. map fst (vector obj) = [''default'']) objs \<longrightarrow> new = objs)"
proof (induction objs arbitrary: client tc)
  case Nil
  then show ?case by (auto simp: fun_eq_iff)
next
  case (Cons obj objs)
  from Cons.prems(2) obtain vec where vec: "map_of (vector obj) ''default'' = Some vec"
    and rest: "list_all (\<lambda>obj. map_of (vector obj) ''default'' \<noteq> None) objs"
    by auto
  let ?stored = "\<lparr> properties = properties obj, vector = [(''default'', vec)] \<rparr>"
  let ?tc' = "tc\<lparr> objects := objects tc @ [?stored] \<rparr>"
  let ?client' = "client(target_name \<mapsto> ?tc')"
  have add: "batch_add_object client target_name (properties obj) vec = Inr ?client'"
    using Cons.prems(1) by (simp add: batch_add_object_def)
  have "?client' target_name = Some ?tc'" by simp
  from Cons.IH [of ?client' ?tc', OF this rest] obtain new where
    copy: "copy_objects ?client' target_name objs
             = Inr (?client'(target_name \<mapsto> ?tc'\<lparr> objects := objects ?tc' @ new \<rparr>))"
    and props: "map properties new = map properties objs"
    and vecs: "map (\<lambda>obj. map_of (vector obj) ''default'') new
                 = map (\<lambda>obj. map_of (vector obj) ''default'') objs"
    and exact: "list_all (\<lambda>obj. map fst (vector obj) = [''default'']) objs \<longrightarrow> new = objs"
    by blast
  have same: "map fst (vector obj) = [''default''] \<Longrightarrow> ?stored = obj"
  proof -
    assume one: "map fst (vector obj) = [''default'']"
    then obtain v where v: "vector obj = [(''default'', v)]"
      by (cases "vector obj") auto
    with vec have "v = vec" by simp
    with v show "?stored = obj" by simp
  qed
  show ?case
  proof (intro exI [of _ "?stored # new"] conjI)
    show "copy_objects client target_name (obj # objs)
            = Inr (client(target_name \<mapsto> tc\<lparr> objects := objects tc @ ?stored # new \<rparr>))"
      using vec add copy by simp
    show "map properties (?stored # new) = map properties (obj # objs)"
      using props by simp
    show "map (\<lambda>obj. map_of (vector obj) ''default'') (?stored # new)
            = map (\<lambda>obj. map_of (vector obj) ''default'') (obj # objs)"
      using vecs vec by simp
    show "list_all (\<lambda>obj. map fst (vector obj) = [''default'']) (obj # objs)
            \<longrightarrow> ?stored # new = obj # objs"
      using exact same by simp
  qed
qed

text \<open>
  C2 (amended). When the source exists, the target name differs from the source name, the
  target does not exist or overwrite is true, and every object of the source has a
  \<open>default\<close> vector, \<open>rename_collection\<close> returns True and leaves the client with the
  source deleted, every other collection untouched, and the target a collection freshly
  created with the standard schema and the cosine metric that holds one object per source
  object, in order, with the same properties and the same default vector; these are the
  source's objects themselves when \<open>default\<close> is the only vector they have.
\<close>

theorem rename_collection_copies_source:
  assumes src: "client source_name = Some col"
    and ne: "source_name \<noteq> target_name"
    and tgt: "client target_name = None \<or> overwrite"
    and vecs: "list_all (\<lambda>obj. map_of (vector obj) ''default'' \<noteq> None) (objects col)"
  shows "\<exists>new. rename_collection client source_name target_name overwrite
           = Inr (True, (client(source_name := None))(target_name \<mapsto>
               \<lparr> schema_properties = standard_schema, distance_metric = COSINE,
                 objects = new \<rparr>)) \<and>
         map properties new = map properties (objects col) \<and>
         map (\<lambda>obj. map_of (vector obj) ''default'') new
           = map (\<lambda>obj. map_of (vector obj) ''default'') (objects col) \<and>
         (list_all (\<lambda>obj. map fst (vector obj) = [''default'']) (objects col) \<longrightarrow>
            new = objects col)"
proof -
  let ?client1 = "if collections_exists client target_name
                  then collections_delete client target_name else client"
  let ?fresh = "\<lparr> schema_properties = standard_schema, distance_metric = COSINE,
                  objects = [] \<rparr>"
  let ?client2 = "?client1(target_name \<mapsto> ?fresh)"
  have c1: "?client1 = client(target_name := None)"
    by (auto simp: collections_exists_def collections_delete_def)
  have create: "create_collection ?client1 target_name COSINE = Inr ?client2"
    unfolding c1 by (simp add: create_collection_def collections_exists_def collections_create_def)
  have src2: "?client2 source_name = Some col"
    unfolding c1 using src ne by simp
  have iter: "collection_iterator ?client2 source_name = Inr (objects col)"
    using src2 by (simp add: collection_iterator_def)
  have "?client2 target_name = Some ?fresh" by simp
  from copy_objects_appends [of ?client2 target_name ?fresh "objects col", OF this vecs]
  obtain new where
    copy: "copy_objects ?client2 target_name (objects col)
             = Inr (?client2(target_name \<mapsto> ?fresh\<lparr> objects := objects ?fresh @ new \<rparr>))"
    and props: "map properties new = map properties (objects col)"
    and dv: "map (\<lambda>obj. map_of (vector obj) ''default'') new
               = map (\<lambda>obj. map_of (vector obj) ''default'') (objects col)"
    and exact: "list_all (\<lambda>obj. map fst (vector obj) = [''default'']) (objects col) \<longrightarrow>
                  new = objects col"
    by blast
  have final: "collections_delete
                 (?client2(target_name \<mapsto> ?fresh\<lparr> objects := objects ?fresh @ new \<rparr>)) source_name
               = (client(source_name := None))(target_name \<mapsto>
                   \<lparr> schema_properties = standard_schema, distance_metric = COSINE,
                     objects = new \<rparr>)"
    unfolding c1 using ne by (auto simp: collections_delete_def fun_eq_iff)
  have guard: "collections_exists client source_name"
    "\<not> (collections_exists client target_name \<and> \<not> overwrite)"
    using src tgt by (auto simp: collections_exists_def)
  have "rename_collection client source_name target_name overwrite
          = Inr (True, (client(source_name := None))(target_name \<mapsto>
               \<lparr> schema_properties = standard_schema, distance_metric = COSINE,
                 objects = new \<rparr>))"
    unfolding rename_collection_def Let_def
    using guard by (simp only: if_False if_True not_True_eq_False create iter copy final sum.case)
  with props dv exact show ?thesis by blast
qed


theorem rename_collection_copies_source_witness:
  "rename_collection example_client ''docs'' ''archive'' False
     = Inr (True, (example_client(''docs'' := None))(''archive'' \<mapsto>
         \<lparr> schema_properties = standard_schema, distance_metric = COSINE,
           objects = example_chunks \<rparr>))"
proof -
  let ?col = "\<lparr> schema_properties = standard_schema, distance_metric = DOT,
                objects = example_chunks \<rparr>"
  have src: "example_client ''docs'' = Some ?col"
    by (simp add: example_client_def)
  have ne: "''docs'' \<noteq> ''archive''"
    by simp
  have tgt: "example_client ''archive'' = None \<or> False"
    by (simp add: example_client_def)
  have vecs: "list_all (\<lambda>obj. map_of (vector obj) ''default'' \<noteq> None) (objects ?col)"
    by (simp add: example_chunks_def)
  have only: "list_all (\<lambda>obj. map fst (vector obj) = [''default'']) (objects ?col)"
    by (simp add: example_chunks_def)
  from rename_collection_copies_source [OF src ne tgt vecs] obtain new where
    "rename_collection example_client ''docs'' ''archive'' False
       = Inr (True, (example_client(''docs'' := None))(''archive'' \<mapsto>
           \<lparr> schema_properties = standard_schema, distance_metric = COSINE,
             objects = new \<rparr>))"
    "list_all (\<lambda>obj. map fst (vector obj) = [''default'']) (objects ?col) \<longrightarrow>
       new = objects ?col"
    by blast
  with only show ?thesis by simp
qed

text \<open>
  The claim C2 as stated fails when a collection is renamed onto its own name with
  overwrite: the collection is deleted as the target, created again empty, copied from
  itself and deleted as the source. The call returns True and no collection is left. And
  when an object of the source has no \<open>default\<close> vector, the copy loop raises KeyError.
\<close>

theorem rename_collection_onto_itself_loses_objects:
  "collections_exists example_client ''docs'' \<and>
   rename_collection example_client ''docs'' ''docs'' True = Inr (True, Map.empty) \<and>
   collections_exists example_bare_client ''docs'' \<and>
   \<not> collections_exists example_bare_client ''archive'' \<and>
   rename_collection example_bare_client ''docs'' ''archive'' False = Inl (KeyError ''default'')"
  by (simp add: rename_collection_def collections_exists_def collections_delete_def
      create_collection_def collections_create_def collection_iterator_def
      example_client_def example_bare_client_def example_bare_chunks_def Let_def)


end
